theory Spec2Isabelle
  imports Main "HOL-Library.AList" "HOL-Library.Word"
begin

section \<open>Python values shared by the two managers\<close>

text \<open>
  Exceptions are values. The constructors are the exception classes that the modelled
  code raises or catches; any other class is \<open>OtherException\<close> with its class name.
\<close>

datatype py_exception =
    KeyError
  | TypeError
  | IndexError
  | StructError
  | DockerError
  | ConnectionRefusedError
  | CancelledError
  | OtherException string

text \<open>Python's \<open>range(a, b)\<close> on integers.\<close>

definition py_range :: "int \<Rightarrow> int \<Rightarrow> int list" where
  "py_range a b = [a..b - 1]"

section \<open>docker\_manager.py: the port pool\<close>

text \<open>
  What the engine's container listing reports of one container, as far as the port pool
  reads it: the name, the status string, the label keys and the host ports
  (\<open>BandContainer.ports\<close>).
\<close>

record container =
  cname :: string
  cstatus :: string
  clabels :: "string list"
  cports :: "int list"

text \<open>The fields of \<open>DockerManager\<close> that the port pool uses.\<close>

record docker_manager =
  start_port :: int
  end_port :: int
  reserved_ports :: "int set"

text \<open>
  \<open>DockerManager.containers\<close>: the engine lists every container (\<open>all=True\<close>) that
  passes the filters; a filter on the label \<open>inband\<close> is set when \<open>inband\<close> is true, a
  filter on the status when \<open>status\<close> is truthy. The first argument is what the engine
  holds.
\<close>

definition containers_list :: "container list \<Rightarrow> string option \<Rightarrow> bool \<Rightarrow> container list" where
  "containers_list engine status inband =
     filter (\<lambda>c. (inband \<longrightarrow> ''inband'' \<in> set (clabels c)) \<and>
                 (case status of
                    None \<Rightarrow> True
                  | Some s \<Rightarrow> s = [] \<or> cstatus c = s))
            engine"

text \<open>
  With \<open>struct=dict\<close> the listing becomes \<open>{c.name: c for c in lst}\<close>: a later container
  of the same name replaces the earlier one.
\<close>

definition containers_dict :: "container list \<Rightarrow> string option \<Rightarrow> bool \<Rightarrow> (string \<times> container) list" where
  "containers_dict engine status inband =
     fold (\<lambda>c d. AList.update (cname c) c d) (containers_list engine status inband) []"

text \<open>
  \<open>available_ports\<close>: the listing is \<open>self.containers()\<close> with its defaults
  (\<open>status=None\<close>, \<open>inband=True\<close>).
\<close>

definition used_ports :: "container list \<Rightarrow> int set" where
  "used_ports engine = set (concat (map (cports \<circ> snd) (containers_dict engine None True)))"

definition available_ports :: "docker_manager \<Rightarrow> container list \<Rightarrow> int set" where
  "available_ports dm engine =
     set (py_range (start_port dm) (end_port dm)) - used_ports engine - reserved_ports dm"

text \<open>\<open>hold_ports\<close> and \<open>free_ports\<close>: in the source both loops call \<open>reserved_ports.add\<close>.\<close>

definition hold_ports :: "docker_manager \<Rightarrow> int list \<Rightarrow> docker_manager" where
  "hold_ports dm ports = fold (\<lambda>port d. d\<lparr>reserved_ports := insert port (reserved_ports d)\<rparr>) ports dm"

definition free_ports :: "docker_manager \<Rightarrow> int list \<Rightarrow> docker_manager" where
  "free_ports dm ports = fold (\<lambda>port d. d\<lparr>reserved_ports := insert port (reserved_ports d)\<rparr>) ports dm"

text \<open>
  \<open>set.pop()\<close> removes and returns an element of the set that Python chooses; on the
  empty set it raises \<open>KeyError\<close>. The choice is the parameter \<open>pick\<close>.
\<close>

definition set_pop :: "(int set \<Rightarrow> int) \<Rightarrow> int set \<Rightarrow> py_exception + (int \<times> int set)" where
  "set_pop pick S = (if S = {} then Inl KeyError else Inr (pick S, S - {pick S}))"

text \<open>\<open>list(available_ports.pop() for p in service_img.ports)\<close>: one pop per declared port.\<close>

fun pop_each :: "(int set \<Rightarrow> int) \<Rightarrow> int set \<Rightarrow> 'p list \<Rightarrow> py_exception + int list" where
  "pop_each pick S [] = Inr []"
| "pop_each pick S (p # ps) =
     (case set_pop pick S of
        Inl e \<Rightarrow> Inl e
      | Inr (x, S') \<Rightarrow>
          (case pop_each pick S' ps of
             Inl e \<Rightarrow> Inl e
           | Inr xs \<Rightarrow> Inr (x # xs)))"

text \<open>
  What \<open>run_container\<close> meets outside the manager: the image of the service with the
  container ports it declares (or the exception of the lookup), the outcome of building
  the image, the engine's containers once the old container is removed (or the exception
  of the listing), and the outcome of everything inside the \<open>try\<close> block, which depends
  on the host ports handed to the engine.
\<close>

record 'info run_world =
  image_ports :: "py_exception + int list"
  build_image :: "py_exception + unit"
  engine_listing :: "py_exception + container list"
  engine_run :: "int list \<Rightarrow> py_exception + 'info"

text \<open>
  \<open>run_container\<close>. \<open>remove_container\<close> returns \<open>True\<close> on every path the source handles,
  so it is no branch here. The \<open>finally\<close> clause runs \<open>free_ports\<close> whatever the \<open>try\<close>
  block did; an exception before the \<open>try\<close> leaves the manager as it was.
\<close>

definition run_container ::
  "(int set \<Rightarrow> int) \<Rightarrow> docker_manager \<Rightarrow> 'info run_world \<Rightarrow> docker_manager \<times> (py_exception + 'info)" where
  "run_container pick dm w =
     (case image_ports w of
        Inl e \<Rightarrow> (dm, Inl e)
      | Inr ports \<Rightarrow>
     (case build_image w of
        Inl e \<Rightarrow> (dm, Inl e)
      | Inr _ \<Rightarrow>
     (case engine_listing w of
        Inl e \<Rightarrow> (dm, Inl e)
      | Inr engine \<Rightarrow>
     (case pop_each pick (available_ports dm engine) ports of
        Inl e \<Rightarrow> (dm, Inl e)
      | Inr allocated_ports \<Rightarrow>
          (free_ports (hold_ports dm allocated_ports) allocated_ports,
           engine_run w allocated_ports)))))"

section \<open>state/manager.py: the dashboard placer\<close>

text \<open>
  Python's \<open>str\<close> of an integer, as the f-string \<open>f"{icol}x{irow}"\<close> renders it: decimal
  digits, with a minus sign for a negative number.
\<close>

definition digit_char :: "nat \<Rightarrow> char" where
  "digit_char d = char_of (48 + d)"

fun dec_nat :: "nat \<Rightarrow> string" where
  "dec_nat n = (if n < 10 then [digit_char n] else dec_nat (n div 10) @ [digit_char (n mod 10)])"

declare dec_nat.simps [simp del]

definition str_int :: "int \<Rightarrow> string" where
  "str_int i = (if i < 0 then CHR ''-'' # dec_nat (nat (- i)) else dec_nat (nat i))"

text \<open>The key of a cell: \<open>f"{icol}x{irow}"\<close>.\<close>

definition cell_key :: "int \<Rightarrow> int \<Rightarrow> string" where
  "cell_key icol irow = str_int icol @ ''x'' @ str_int irow"

type_synonym env = "string \<rightharpoonup> string"

text \<open>A position \<open>{col, row}\<close>; either entry may be missing (\<open>None\<close>).\<close>

type_synonym pos = "int option \<times> int option"

text \<open>
  Modelled from the spec: the image catalog (image\_navigator.py) is not under src/. The
  meta of an image carries its default env, an optional default grid position and the
  \<open>native\<close> flag; \<open>get\<close> reads \<open>meta.env\<close> and \<open>meta.pos\<close>.
\<close>

record meta =
  m_env :: "env option"
  m_pos :: "pos option"
  m_native :: bool

text \<open>
  Modelled from the spec: the service record \<open>ServiceState\<close> (state/service.py) is not
  under src/. The fields are those the manager reads and sets: the name, the meta, the
  merged env, the build options, the grid position, the status of the last observed
  engine state (\<open>None\<close> when absent), the last application status, the status override
  and the registered methods.
\<close>

record service =
  sname :: string
  smeta :: "meta option"
  senv :: env
  build_options :: env
  spos :: pos
  dockstate :: "string option"
  appstate :: "string list option"
  status_override :: "string option"
  methods :: "string list"

text \<open>Modelled from the spec: \<open>ServiceState(name=name, manager=self)\<close>, a record with nothing observed yet.\<close>

definition new_service :: "string \<Rightarrow> service" where
  "new_service name =
     \<lparr>sname = name, smeta = None, senv = Map.empty, build_options = Map.empty,
      spos = (None, None), dockstate = None, appstate = None, status_override = None,
      methods = []\<rparr>"

text \<open>
  Modelled from the spec: the setters of \<open>ServiceState\<close> are not under src/. Each stores
  its argument in the field it is named after; \<open>clean_status\<close> clears the status override;
  the methods of a record are those of its last application status.
\<close>

definition set_meta :: "meta \<Rightarrow> service \<Rightarrow> service" where
  "set_meta mt svc = svc\<lparr>smeta := Some mt\<rparr>"

definition set_env :: "env \<Rightarrow> service \<Rightarrow> service" where
  "set_env e svc = svc\<lparr>senv := e\<rparr>"

definition set_build_opts :: "env \<Rightarrow> service \<Rightarrow> service" where
  "set_build_opts b svc = svc\<lparr>build_options := b\<rparr>"

definition set_pos :: "int \<Rightarrow> int \<Rightarrow> service \<Rightarrow> service" where
  "set_pos c r svc = svc\<lparr>spos := (Some c, Some r)\<rparr>"

definition set_dockstate :: "string \<Rightarrow> service \<Rightarrow> service" where
  "set_dockstate st svc = svc\<lparr>dockstate := Some st\<rparr>"

definition set_appstate :: "string list \<Rightarrow> service \<Rightarrow> service" where
  "set_appstate st svc = svc\<lparr>appstate := Some st, methods := st\<rparr>"

definition set_status_override :: "string \<Rightarrow> service \<Rightarrow> service" where
  "set_status_override st svc = svc\<lparr>status_override := Some st\<rparr>"

definition clean_status :: "service \<Rightarrow> service" where
  "clean_status svc = svc\<lparr>status_override := None\<rparr>"

text \<open>
  Modelled from the spec: the effective status of a record is its status override if
  present, else the status of the last observed engine state.
\<close>

definition effective_status :: "service \<Rightarrow> string option" where
  "effective_status svc =
     (case status_override svc of Some st \<Rightarrow> Some st | None \<Rightarrow> dockstate svc)"

text \<open>
  Modelled from the spec: \<open>pos.to_s()\<close> (not under src/) renders a position as the key of
  its cell, a missing entry as Python prints \<open>None\<close>.
\<close>

definition str_opt :: "int option \<Rightarrow> string" where
  "str_opt x = (case x of None \<Rightarrow> ''None'' | Some i \<Rightarrow> str_int i)"

definition to_s :: "pos \<Rightarrow> string" where
  "to_s p = str_opt (fst p) @ ''x'' @ str_opt (snd p)"

text \<open>Modelled from the spec: \<open>helpers.nn\<close> (not under src/) tells whether a value is present.\<close>

definition nn :: "'a option \<Rightarrow> bool" where
  "nn x = (x \<noteq> None)"

text \<open>A stored configuration document: each of its keys may be missing.\<close>

record config =
  c_env :: "env option"
  c_pos :: "pos option"
  c_build_options :: "env option"

text \<open>The registrations hash starts as the empty string and holds an integer afterwards.\<close>

datatype reg_hash = Initial | Hash int

text \<open>\<open>StateManager.__init__\<close>: the grid is 6 by 6, the table is empty.\<close>

record state_manager =
  cols :: int
  rows :: int
  timeout :: int
  state :: "(string \<times> service) list"
  shared_config :: config
  registrations_hash :: reg_hash

definition init_manager :: state_manager where
  "init_manager =
     \<lparr>cols = 6, rows = 6, timeout = 30, state = [],
      shared_config = \<lparr>c_env = None, c_pos = None, c_build_options = None\<rparr>,
      registrations_hash = Initial\<rparr>"

text \<open>\<open>_space_walk\<close>: the cells the generator yields, in order.\<close>

definition space_walk :: "state_manager \<Rightarrow> int \<Rightarrow> int \<Rightarrow> (int \<times> int) list" where
  "space_walk m scol srow =
     concat (map (\<lambda>rowi. map (\<lambda>coli. (coli, rowi)) (py_range scol (cols m))) (py_range srow (rows m)))
     @ concat (map (\<lambda>rowi. map (\<lambda>coli. (coli, rowi)) (py_range 0 scol)) (py_range 0 srow))"

text \<open>\<open>_occupied\<close>: the keys of the positions of the records other than \<open>exclude\<close>.\<close>

definition occupied :: "state_manager \<Rightarrow> string option \<Rightarrow> string list" where
  "occupied m exclude =
     concat (map (\<lambda>srv.
        if Some (sname srv) \<noteq> exclude \<and> nn (fst (spos srv)) \<and> nn (snd (spos srv))
        then [to_s (spos srv)] else [])
       (map snd (state m)))"

text \<open>\<open>_allocate\<close>: the first cell of the walk whose key is not occupied, or \<open>None\<close>.\<close>

definition allocate :: "state_manager \<Rightarrow> string \<Rightarrow> int \<Rightarrow> int \<Rightarrow> (int \<times> int) option" where
  "allocate m name col row =
     find (\<lambda>(icol, irow). cell_key icol irow \<notin> set (occupied m (Some name))) (space_walk m col row)"

section \<open>state/manager.py: records, lifecycle operations, reconciler\<close>

text \<open>
  The constants of constants.py and band.constants, which are not under src/, are
  parameters.
\<close>

record constants =
  DEFAULT_COL :: int
  DEFAULT_ROW :: int
  SHARED_CONFIG_KEY :: string
  FRONTIER_SERVICE :: string
  STATUS_STARTING :: string
  STATUS_STOPPING :: string
  STATUS_RESTARTING :: string
  STATUS_REMOVING :: string

text \<open>The keyword argument \<open>params\<close> of \<open>get\<close>; \<open>pdict()\<close> when it is not given.\<close>

record params =
  p_pos :: "pos option"
  p_env :: "env option"
  p_build_options :: "env option"

definition no_params :: params where
  "no_params = \<lparr>p_pos = None, p_env = None, p_build_options = None\<rparr>"

text \<open>The payload of a status request: both entries are missing unless the frontier is asked.\<close>

record payload =
  register :: "string list option"
  state_hash :: "reg_hash option"

text \<open>
  What the manager meets outside itself during one operation: the config store
  (\<open>band_config\<close>), the image catalog, the container driver (\<open>dock\<close>) and the RPC
  subsystem. Each entry is the value the call returns or the exception it raises.
  \<open>dock_get\<close> gives the engine status of the container of that name, if there is one.
\<close>

record world =
  band_load_config :: "string \<Rightarrow> py_exception + config option"
  band_set_add :: "string \<Rightarrow> py_exception + unit"
  band_set_rm :: "string \<Rightarrow> py_exception + unit"
  image_meta :: "string \<Rightarrow> meta option"
  dock_get :: "string \<Rightarrow> string option"
  dock_containers :: "py_exception + string list"
  dock_run_container :: "string \<Rightarrow> env \<Rightarrow> env \<Rightarrow> py_exception + unit"
  dock_remove_container :: "string \<Rightarrow> py_exception + unit"
  dock_stop_container :: "string \<Rightarrow> py_exception + unit"
  dock_start_container :: "string \<Rightarrow> py_exception + unit"
  dock_restart_container :: "string \<Rightarrow> py_exception + unit"
  rpc_request :: "string \<Rightarrow> payload \<Rightarrow> py_exception + string list"

text \<open>\<open>self._state[name] = svc\<close>, and the write of a mutated record back into the table.\<close>

definition store :: "string \<Rightarrow> service \<Rightarrow> state_manager \<Rightarrow> state_manager" where
  "store name svc m = m\<lparr>state := AList.update name svc (state m)\<rparr>"

text \<open>A dict that is present and not empty is truthy; \<open>env_layer\<close> is what such a test appends to \<open>envs\<close>.\<close>

definition env_layer :: "env option \<Rightarrow> env list" where
  "env_layer e = (case e of None \<Rightarrow> [] | Some x \<Rightarrow> if x = Map.empty then [] else [x])"

text \<open>
  Modelled from the spec: \<open>helpers.merge_dicts\<close> (not under src/) merges the layers in the
  order given, a later layer winning.
\<close>

definition merge_dicts :: "env list \<Rightarrow> env" where
  "merge_dicts envs = foldl (++) Map.empty envs"

text \<open>A configuration document is truthy when it has at least one key.\<close>

definition config_truthy :: "config option \<Rightarrow> bool" where
  "config_truthy c =
     (case c of
        None \<Rightarrow> False
      | Some d \<Rightarrow> c_env d \<noteq> None \<or> c_pos d \<noteq> None \<or> c_build_options d \<noteq> None)"

text \<open>\<open>load_config\<close>: the shared configuration is kept when its document is loaded.\<close>

definition load_config ::
  "constants \<Rightarrow> world \<Rightarrow> state_manager \<Rightarrow> string \<Rightarrow> state_manager \<times> (py_exception + config option)" where
  "load_config k w m name =
     (case band_load_config w name of
        Inl e \<Rightarrow> (m, Inl e)
      | Inr config \<Rightarrow>
          (case config of
             Some d \<Rightarrow>
               if name = SHARED_CONFIG_KEY k \<and> config_truthy config
               then (m\<lparr>shared_config := d\<rparr>, Inr config)
               else (m, Inr config)
           | None \<Rightarrow> (m, Inr config)))"

text \<open>
  The position that \<open>get\<close> takes from \<open>params\<close>: \<open>params.pos\<close>, \<open>params.pos.col\<close> and
  \<open>params.pos.row\<close> must all be truthy, so a zero column or row counts as none.
\<close>

definition params_pos :: "params \<Rightarrow> (int \<times> int) option" where
  "params_pos ps =
     (case p_pos ps of
        Some (Some c, Some r) \<Rightarrow> if c \<noteq> 0 \<and> r \<noteq> 0 then Some (c, r) else None
      | _ \<Rightarrow> None)"

text \<open>A stored or default position is taken when both of its entries are present.\<close>

definition pos_present :: "pos option \<Rightarrow> (int \<times> int) option" where
  "pos_present p =
     (case p of
        Some (c, r) \<Rightarrow> if nn c \<and> nn r then (case (c, r) of (Some c', Some r') \<Rightarrow> Some (c', r') | _ \<Rightarrow> None) else None
      | None \<Rightarrow> None)"

text \<open>
  The branch \<open>if name not in self._state\<close> of \<open>get\<close>: the stored configuration and the
  meta are loaded, the record is created and put into the table. The result is the
  manager, the env layers collected so far and the wanted position.
\<close>

definition load_state ::
  "constants \<Rightarrow> world \<Rightarrow> state_manager \<Rightarrow> string \<Rightarrow> (int \<times> int) option \<Rightarrow>
   (state_manager \<times> py_exception) + (state_manager \<times> env list \<times> (int \<times> int) option)" where
  "load_state k w m name wanted_pos =
     (case load_config k w m name of
        (m1, Inl e) \<Rightarrow> Inl (m1, e)
      | (m1, Inr config) \<Rightarrow>
          (let meta = image_meta w name;
               envs = (case meta of None \<Rightarrow> [] | Some mt \<Rightarrow> env_layer (m_env mt))
                    @ (case config of None \<Rightarrow> [] | Some d \<Rightarrow> env_layer (c_env d));
               svc = (case meta of None \<Rightarrow> new_service name | Some mt \<Rightarrow> set_meta mt (new_service name));
               wanted1 = (if wanted_pos = None \<and> config_truthy config
                          then (case config of
                                  Some d \<Rightarrow> (case pos_present (c_pos d) of Some p \<Rightarrow> Some p | None \<Rightarrow> wanted_pos)
                                | None \<Rightarrow> wanted_pos)
                          else wanted_pos);
               wanted2 = (if wanted1 = None
                          then (case meta of
                                  Some mt \<Rightarrow> (case pos_present (m_pos mt) of Some p \<Rightarrow> Some p | None \<Rightarrow> wanted1)
                                | None \<Rightarrow> wanted1)
                          else wanted1);
               wanted3 = (if wanted2 = None then Some (DEFAULT_COL k, DEFAULT_ROW k) else wanted2)
           in Inr (store name svc m1, envs, wanted3)))"

text \<open>
  The rest of \<open>get\<close>, from \<open>svc = self._state[name]\<close> on. When \<open>_allocate\<close> returns \<open>None\<close>,
  the call \<open>svc.set_pos(**pos)\<close> raises \<open>TypeError\<close>; what was set before stays set.
\<close>

definition get_record ::
  "state_manager \<Rightarrow> string \<Rightarrow> params \<Rightarrow> env list \<Rightarrow> (int \<times> int) option \<Rightarrow>
   state_manager \<times> (py_exception + service)" where
  "get_record m name ps envs wanted_pos =
     (case map_of (state m) name of
        None \<Rightarrow> (m, Inl KeyError)
      | Some svc \<Rightarrow>
          (let envs' = envs @ env_layer (p_env ps);
               svc1 = (if envs' \<noteq> [] then set_env (merge_dicts envs') svc else svc);
               svc2 = (case env_layer (p_build_options ps) of
                         [] \<Rightarrow> svc1
                       | b # _ \<Rightarrow> set_build_opts b svc1);
               m1 = store name svc2 m
           in (case wanted_pos of
                 None \<Rightarrow> (m1, Inr svc2)
               | Some (col, row) \<Rightarrow>
                   (case allocate m1 name col row of
                      None \<Rightarrow> (m1, Inl TypeError)
                    | Some (icol, irow) \<Rightarrow>
                        (let svc3 = set_pos icol irow svc2
                         in (store name svc3 m1, Inr svc3))))))"

text \<open>\<open>StateManager.get\<close>.\<close>

definition get ::
  "constants \<Rightarrow> world \<Rightarrow> state_manager \<Rightarrow> string \<Rightarrow> params \<Rightarrow>
   state_manager \<times> (py_exception + service)" where
  "get k w m name ps =
     (if map_of (state m) name = None
      then (case load_state k w m name (params_pos ps) of
              Inl (m1, e) \<Rightarrow> (m1, Inl e)
            | Inr (m1, envs, wanted_pos) \<Rightarrow> get_record m1 name ps envs wanted_pos)
      else get_record m name ps [] (params_pos ps))"

text \<open>The record a lifecycle operation returns is the object in the table, as it is then.\<close>

definition current :: "state_manager \<Rightarrow> string \<Rightarrow> service \<Rightarrow> service" where
  "current m name svc = (case map_of (state m) name of Some s \<Rightarrow> s | None \<Rightarrow> svc)"

text \<open>
  Modelled from the spec: \<open>ServiceState.native\<close> (not under src/) is the \<open>native\<close> flag of
  the meta, false for a name that is not in the image catalog.
\<close>

definition native :: "service \<Rightarrow> bool" where
  "native svc = (case smeta svc of None \<Rightarrow> False | Some mt \<Rightarrow> m_native mt)"

text \<open>\<open>resolve_docstatus\<close> and \<open>resolve_docstatus_all\<close>.\<close>

definition resolve_docstatus ::
  "constants \<Rightarrow> world \<Rightarrow> state_manager \<Rightarrow> string \<Rightarrow> state_manager \<times> (py_exception + unit)" where
  "resolve_docstatus k w m name =
     (case get k w m name no_params of
        (m1, Inl e) \<Rightarrow> (m1, Inl e)
      | (m1, Inr svc) \<Rightarrow>
          (case dock_get w name of
             None \<Rightarrow> (m1, Inr ())
           | Some st \<Rightarrow> (store name (set_dockstate st svc) m1, Inr ())))"

fun resolve_each ::
  "constants \<Rightarrow> world \<Rightarrow> state_manager \<Rightarrow> string list \<Rightarrow> state_manager \<times> (py_exception + unit)" where
  "resolve_each k w m [] = (m, Inr ())"
| "resolve_each k w m (name # names) =
     (case resolve_docstatus k w m name of
        (m1, Inl e) \<Rightarrow> (m1, Inl e)
      | (m1, Inr _) \<Rightarrow> resolve_each k w m1 names)"

definition resolve_docstatus_all ::
  "constants \<Rightarrow> world \<Rightarrow> state_manager \<Rightarrow> state_manager \<times> (py_exception + unit)" where
  "resolve_docstatus_all k w m =
     (case dock_containers w of
        Inl e \<Rightarrow> (m, Inl e)
      | Inr names \<Rightarrow> resolve_each k w m names)"

text \<open>
  \<open>registrations\<close>: the methods of the active records, in the order of the table.
  \<open>ServiceState.is_active\<close> is not under src/ and is the parameter \<open>is_active\<close>.
\<close>

definition registrations :: "(service \<Rightarrow> bool) \<Rightarrow> state_manager \<Rightarrow> string list" where
  "registrations is_active m =
     concat (map (\<lambda>svc. if is_active svc then methods svc else []) (map snd (state m)))"

text \<open>
  \<open>request_app_state\<close>. The second component of the result lists the status requests
  sent through \<open>rpc.request\<close>, each with its service and its payload.
\<close>

definition request_app_state ::
  "constants \<Rightarrow> world \<Rightarrow> (service \<Rightarrow> bool) \<Rightarrow> state_manager \<Rightarrow> string \<Rightarrow>
   state_manager \<times> (string \<times> payload) list \<times> (py_exception + unit)" where
  "request_app_state k w is_active m name =
     (case get k w m name no_params of
        (m1, Inl e) \<Rightarrow> (m1, [], Inl e)
      | (m1, Inr svc) \<Rightarrow>
          (let payload =
                 (if name = FRONTIER_SERVICE k
                  then \<lparr>register = Some (registrations is_active m1),
                        state_hash = Some (registrations_hash m1)\<rparr>
                  else \<lparr>register = None, state_hash = None\<rparr>)
           in (case rpc_request w name payload of
                 Inl e \<Rightarrow> (m1, [(name, payload)], Inl e)
               | Inr status \<Rightarrow> (store name (set_appstate status svc) m1, [(name, payload)], Inr ()))))"

text \<open>
  \<open>check_regs_changed\<close>. \<open>hash_dumps\<close> stands for \<open>hash(ujson.dumps(dict(register=methods)))\<close>,
  a function of the list of methods.
\<close>

definition check_regs_changed ::
  "constants \<Rightarrow> world \<Rightarrow> (service \<Rightarrow> bool) \<Rightarrow> (string list \<Rightarrow> int) \<Rightarrow> state_manager \<Rightarrow>
   state_manager \<times> (string \<times> payload) list \<times> (py_exception + unit)" where
  "check_regs_changed k w is_active hash_dumps m =
     (let new_hash = Hash (hash_dumps (registrations is_active m))
      in if new_hash \<noteq> registrations_hash m
         then request_app_state k w is_active (m\<lparr>registrations_hash := new_hash\<rparr>) (FRONTIER_SERVICE k)
         else (m, [], Inr ()))"

text \<open>
  The lifecycle operations. With \<open>no_wait\<close> the coroutine is handed to the scheduler and
  the operation returns at once; what the detached coroutine does later is not part of
  the result.
\<close>

definition do_run_service ::
  "constants \<Rightarrow> world \<Rightarrow> state_manager \<Rightarrow> string \<Rightarrow> state_manager \<times> (py_exception + unit)" where
  "do_run_service k w m name =
     (case get k w m name no_params of
        (m1, Inl e) \<Rightarrow> (m1, Inl e)
      | (m1, Inr svc) \<Rightarrow>
          (let env = (case c_env (shared_config m1) of None \<Rightarrow> Map.empty | Some e \<Rightarrow> e) ++ senv svc
           in (case dock_run_container w name env (build_options svc) of
                 Inl e \<Rightarrow> (m1, Inl e)
               | Inr _ \<Rightarrow>
                   (case band_set_add w name of
                      Inl e \<Rightarrow> (m1, Inl e)
                    | Inr _ \<Rightarrow> resolve_docstatus k w m1 name))))"

definition run_service ::
  "constants \<Rightarrow> world \<Rightarrow> state_manager \<Rightarrow> string \<Rightarrow> bool \<Rightarrow> state_manager \<times> (py_exception + service)" where
  "run_service k w m name no_wait =
     (case get k w m name no_params of
        (m1, Inl e) \<Rightarrow> (m1, Inl e)
      | (m1, Inr svc) \<Rightarrow>
          (let svc1 = set_status_override (STATUS_STARTING k) (clean_status svc);
               m2 = store name svc1 m1
           in if no_wait then (m2, Inr svc1)
              else (case do_run_service k w m2 name of
                      (m3, Inl e) \<Rightarrow> (m3, Inl e)
                    | (m3, Inr _) \<Rightarrow> (m3, Inr (current m3 name svc1)))))"

definition do_remove_service ::
  "constants \<Rightarrow> world \<Rightarrow> state_manager \<Rightarrow> string \<Rightarrow> state_manager \<times> (py_exception + unit)" where
  "do_remove_service k w m name =
     (case get k w m name no_params of
        (m1, Inl e) \<Rightarrow> (m1, Inl e)
      | (m1, Inr svc) \<Rightarrow>
          (case dock_remove_container w name of
             Inl e \<Rightarrow> (m1, Inl e)
           | Inr _ \<Rightarrow> (store name (clean_status svc) m1, Inr ())))"

definition remove_service ::
  "constants \<Rightarrow> world \<Rightarrow> state_manager \<Rightarrow> string \<Rightarrow> bool \<Rightarrow> state_manager \<times> (py_exception + service)" where
  "remove_service k w m name no_wait =
     (case get k w m name no_params of
        (m1, Inl e) \<Rightarrow> (m1, Inl e)
      | (m1, Inr svc) \<Rightarrow>
          (case band_set_rm w name of
             Inl e \<Rightarrow> (m1, Inl e)
           | Inr _ \<Rightarrow>
               (let svc1 = set_status_override (STATUS_REMOVING k) svc;
                    m2 = store name svc1 m1
                in if no_wait then (m2, Inr svc1)
                   else (case do_remove_service k w m2 name of
                           (m3, Inl e) \<Rightarrow> (m3, Inl e)
                         | (m3, Inr _) \<Rightarrow> (m3, Inr (current m3 name svc1))))))"

definition do_stop_service ::
  "constants \<Rightarrow> world \<Rightarrow> state_manager \<Rightarrow> string \<Rightarrow> state_manager \<times> (py_exception + unit)" where
  "do_stop_service k w m name =
     (case get k w m name no_params of
        (m1, Inl e) \<Rightarrow> (m1, Inl e)
      | (m1, Inr svc) \<Rightarrow>
          (case dock_stop_container w name of
             Inl e \<Rightarrow> (m1, Inl e)
           | Inr _ \<Rightarrow> (store name (clean_status svc) m1, Inr ())))"

definition stop_service ::
  "constants \<Rightarrow> world \<Rightarrow> state_manager \<Rightarrow> string \<Rightarrow> bool \<Rightarrow> state_manager \<times> (py_exception + service)" where
  "stop_service k w m name no_wait =
     (case get k w m name no_params of
        (m1, Inl e) \<Rightarrow> (m1, Inl e)
      | (m1, Inr svc) \<Rightarrow>
          (case band_set_rm w name of
             Inl e \<Rightarrow> (m1, Inl e)
           | Inr _ \<Rightarrow>
               (let svc1 = set_status_override (STATUS_STOPPING k) svc;
                    m2 = store name svc1 m1
                in if no_wait then (m2, Inr svc1)
                   else (case do_stop_service k w m2 name of
                           (m3, Inl e) \<Rightarrow> (m3, Inl e)
                         | (m3, Inr _) \<Rightarrow> (m3, Inr (current m3 name svc1))))))"

definition do_start_service ::
  "constants \<Rightarrow> world \<Rightarrow> state_manager \<Rightarrow> string \<Rightarrow> state_manager \<times> (py_exception + unit)" where
  "do_start_service k w m name =
     (case get k w m name no_params of
        (m1, Inl e) \<Rightarrow> (m1, Inl e)
      | (m1, Inr svc) \<Rightarrow>
          (case dock_start_container w name of
             Inl e \<Rightarrow> (m1, Inl e)
           | Inr _ \<Rightarrow> (store name (clean_status svc) m1, Inr ())))"

definition start_service ::
  "constants \<Rightarrow> world \<Rightarrow> state_manager \<Rightarrow> string \<Rightarrow> bool \<Rightarrow> state_manager \<times> (py_exception + service)" where
  "start_service k w m name no_wait =
     (case get k w m name no_params of
        (m1, Inl e) \<Rightarrow> (m1, Inl e)
      | (m1, Inr svc) \<Rightarrow>
          (case (if native svc then band_set_add w name else Inr ()) of
             Inl e \<Rightarrow> (m1, Inl e)
           | Inr _ \<Rightarrow>
               (let svc1 = set_status_override (STATUS_STARTING k) svc;
                    m2 = store name svc1 m1
                in if no_wait then (m2, Inr svc1)
                   else (case do_start_service k w m2 name of
                           (m3, Inl e) \<Rightarrow> (m3, Inl e)
                         | (m3, Inr _) \<Rightarrow> (m3, Inr (current m3 name svc1))))))"

text \<open>
  \<open>_do_restart_service\<close>: with a container, the override is cleared before the driver
  is asked to restart and once more after it; without one, nothing is done.
\<close>

definition do_restart_service ::
  "constants \<Rightarrow> world \<Rightarrow> (service \<Rightarrow> bool) \<Rightarrow> (string list \<Rightarrow> int) \<Rightarrow> state_manager \<Rightarrow> string \<Rightarrow>
   state_manager \<times> (string \<times> payload) list \<times> (py_exception + unit)" where
  "do_restart_service k w is_active hash_dumps m name =
     (let container = dock_get w name
      in (case get k w m name no_params of
            (m1, Inl e) \<Rightarrow> (m1, [], Inl e)
          | (m1, Inr svc) \<Rightarrow>
              (case container of
                 None \<Rightarrow> (m1, [], Inr ())
               | Some _ \<Rightarrow>
                   (let m2 = store name (clean_status svc) m1
                    in (case dock_restart_container w name of
                          Inl e \<Rightarrow> (m2, [], Inl e)
                        | Inr _ \<Rightarrow> check_regs_changed k w is_active hash_dumps m2)))))"

definition restart_service ::
  "constants \<Rightarrow> world \<Rightarrow> (service \<Rightarrow> bool) \<Rightarrow> (string list \<Rightarrow> int) \<Rightarrow> state_manager \<Rightarrow> string \<Rightarrow> bool \<Rightarrow>
   state_manager \<times> (string \<times> payload) list \<times> (py_exception + service)" where
  "restart_service k w is_active hash_dumps m name no_wait =
     (case get k w m name no_params of
        (m1, Inl e) \<Rightarrow> (m1, [], Inl e)
      | (m1, Inr svc) \<Rightarrow>
          (let svc1 = set_status_override (STATUS_RESTARTING k) svc;
               m2 = store name svc1 m1
           in if no_wait then (m2, [], Inr svc1)
              else (case do_restart_service k w is_active hash_dumps m2 name of
                      (m3, probes, Inl e) \<Rightarrow> (m3, probes, Inl e)
                    | (m3, probes, Inr _) \<Rightarrow> (m3, probes, Inr (current m3 name svc1)))))"

text \<open>
  \<open>clean_worker\<close>. The loop has no exit of its own, so it is run over the ticks that are
  supplied: a tick says whether the task is cancelled while it sleeps, and gives the world
  of that tick. \<open>tick_body\<close> is the body of the \<open>try\<close>.
\<close>

record tick =
  cancelled_in_sleep5 :: bool
  tick_world :: world
  cancelled_in_sleep1 :: bool

datatype log_entry =
    LogError string
  | LogWarn string
  | LogException string py_exception

datatype worker_status = Looping | Broke | Raised py_exception

definition tick_body ::
  "constants \<Rightarrow> (service \<Rightarrow> bool) \<Rightarrow> (string list \<Rightarrow> int) \<Rightarrow> state_manager \<Rightarrow> tick \<Rightarrow>
   state_manager \<times> (string \<times> payload) list \<times> (py_exception + unit)" where
  "tick_body k is_active hash_dumps m t =
     (if cancelled_in_sleep5 t then (m, [], Inl CancelledError)
      else (case resolve_docstatus_all k (tick_world t) m of
              (m1, Inl e) \<Rightarrow> (m1, [], Inl e)
            | (m1, Inr _) \<Rightarrow> check_regs_changed k (tick_world t) is_active hash_dumps m1))"

text \<open>The \<open>except\<close> clauses in their order: what is logged, and whether the loop breaks.\<close>

definition handle :: "py_exception + unit \<Rightarrow> log_entry list \<times> bool" where
  "handle r =
     (case r of
        Inr _ \<Rightarrow> ([], False)
      | Inl e \<Rightarrow>
          if e = ConnectionRefusedError then ([LogError ''Redis connection refused''], False)
          else if e = CancelledError then ([LogWarn ''Asyncio cancelled''], True)
          else ([LogException ''state initialize'' e], False))"

fun clean_worker ::
  "constants \<Rightarrow> (service \<Rightarrow> bool) \<Rightarrow> (string list \<Rightarrow> int) \<Rightarrow> state_manager \<Rightarrow> tick list \<Rightarrow>
   state_manager \<times> (string \<times> payload) list \<times> log_entry list \<times> worker_status" where
  "clean_worker k is_active hash_dumps m [] = (m, [], [], Looping)"
| "clean_worker k is_active hash_dumps m (t # ts) =
     (case tick_body k is_active hash_dumps m t of
        (m1, probes, r) \<Rightarrow>
          (case handle r of
             (logs, True) \<Rightarrow> (m1, probes, logs, Broke)
           | (logs, False) \<Rightarrow>
               if cancelled_in_sleep1 t then (m1, probes, logs, Raised CancelledError)
               else (case clean_worker k is_active hash_dumps m1 ts of
                       (m2, probes2, logs2, st) \<Rightarrow> (m2, probes @ probes2, logs @ logs2, st))))"

section \<open>docker\_manager.py: the log reader\<close>

type_synonym byte = "8 word"

text \<open>\<open>struct.unpack('>L', b)\<close>: four bytes, big-endian; any other length is a \<open>struct.error\<close>.\<close>

definition unpack_be32 :: "byte list \<Rightarrow> py_exception + nat" where
  "unpack_be32 b =
     (case b of
        [b0, b1, b2, b3] \<Rightarrow> Inr (((unat b0 * 256 + unat b1) * 256 + unat b2) * 256 + unat b3)
      | _ \<Rightarrow> Inl StructError)"

text \<open>The record published for one item of the log subscriber: \<open>(now, cid, name, source, size, data)\<close>.\<close>

record 'u log_msg =
  msg_now :: int
  msg_cid :: string
  msg_name :: string
  msg_source :: nat
  msg_size :: nat
  msg_data :: 'u

text \<open>
  The body of the loop for one \<open>log_record\<close>. \<open>decode\<close> is Python's
  \<open>bytes.decode('utf-8', 'replace')\<close>, which returns a string for every byte sequence.
  \<open>mv[0]\<close> raises \<open>IndexError\<close> on an empty record.
\<close>

definition frame_msg ::
  "(byte list \<Rightarrow> 'u) \<Rightarrow> string \<Rightarrow> string \<Rightarrow> int \<Rightarrow> byte list \<Rightarrow> py_exception + 'u log_msg" where
  "frame_msg decode cid name now log_record =
     (let data = decode (drop 8 log_record)
      in (case log_record of
            [] \<Rightarrow> Inl IndexError
          | source # _ \<Rightarrow>
              (case unpack_be32 (take 4 (drop 4 log_record)) of
                 Inl e \<Rightarrow> Inl e
               | Inr sz \<Rightarrow>
                   Inr \<lparr>msg_now = now, msg_cid = cid, msg_name = name,
                        msg_source = unat source, msg_size = sz, msg_data = data\<rparr>)))"

text \<open>
  \<open>logs_reader\<close> over the items that the subscriber delivers, each with the clock read
  for it: \<open>None\<close> closes the reader, an exception ends it, and when the items run out it
  is waiting for the next one. The result lists what was published, in order.
\<close>

datatype reader_status = Waiting | Closed | Failed py_exception

fun logs_reader ::
  "(byte list \<Rightarrow> 'u) \<Rightarrow> string \<Rightarrow> string \<Rightarrow> (int \<times> byte list) option list \<Rightarrow>
   'u log_msg list \<times> reader_status" where
  "logs_reader decode cid name [] = ([], Waiting)"
| "logs_reader decode cid name (None # items) = ([], Closed)"
| "logs_reader decode cid name (Some (now, log_record) # items) =
     (case frame_msg decode cid name now log_record of
        Inl e \<Rightarrow> ([], Failed e)
      | Inr msg \<Rightarrow>
          (case logs_reader decode cid name items of
             (msgs, st) \<Rightarrow> (msg # msgs, st)))"

section \<open>Notions of the specification and auxiliary definitions\<close>

text \<open>The value of a decimal rendering, the left inverse of \<open>dec_nat\<close> used in the proofs.\<close>

definition digit_val :: "char \<Rightarrow> nat" where
  "digit_val c = of_char c - 48"

definition nat_of_dec :: "string \<Rightarrow> nat" where
  "nat_of_dec s = foldl (\<lambda>acc c. 10 * acc + digit_val c) 0 s"

text \<open>
  Row-major order of the cells \<open>(col, row)\<close>, in the words of the specification: rows
  from the top, within a row the columns from the left.
\<close>

definition row_major :: "int \<times> int \<Rightarrow> int \<times> int \<Rightarrow> bool" where
  "row_major a b = (snd a < snd b \<or> snd a = snd b \<and> fst a < fst b)"

text \<open>A table entry for a record that sits at a cell, and three tables on the 6 by 6 grid.\<close>

definition placed :: "string \<Rightarrow> int \<Rightarrow> int \<Rightarrow> string \<times> service" where
  "placed name c r = (name, (new_service name)\<lparr>spos := (Some c, Some r)\<rparr>)"

definition grid_blocked :: state_manager where
  "grid_blocked = init_manager\<lparr>state :=
     [placed ''a'' 1 5, placed ''b'' 2 5, placed ''c'' 3 5, placed ''d'' 4 5, placed ''e'' 5 5,
      placed ''f'' 0 0, placed ''g'' 0 1, placed ''h'' 0 2, placed ''i'' 0 3, placed ''j'' 0 4]\<rparr>"

definition grid_one :: state_manager where
  "grid_one = init_manager\<lparr>state := [placed ''A'' 2 3]\<rparr>"

text \<open>
  A concrete setting: the constants, a config store and an image catalog that know the
  service \<open>svc\<close> with one env entry each, a driver without containers.
\<close>

definition k0 :: constants where
  "k0 = \<lparr>DEFAULT_COL = 0, DEFAULT_ROW = 0, SHARED_CONFIG_KEY = ''shared'',
         FRONTIER_SERVICE = ''front'', STATUS_STARTING = ''starting'',
         STATUS_STOPPING = ''stopping'', STATUS_RESTARTING = ''restarting'',
         STATUS_REMOVING = ''removing''\<rparr>"

definition meta_svc :: meta where
  "meta_svc = \<lparr>m_env = Some [''A'' \<mapsto> ''meta''], m_pos = None, m_native = True\<rparr>"

definition config_svc :: config where
  "config_svc = \<lparr>c_env = Some [''B'' \<mapsto> ''cfg''], c_pos = None, c_build_options = None\<rparr>"

definition world_quiet :: world where
  "world_quiet =
     \<lparr>band_load_config = (\<lambda>name. Inr (if name = ''svc'' then Some config_svc else None)),
      band_set_add = (\<lambda>name. Inr ()),
      band_set_rm = (\<lambda>name. Inr ()),
      image_meta = (\<lambda>name. if name = ''svc'' then Some meta_svc else None),
      dock_get = (\<lambda>name. None),
      dock_containers = Inr [],
      dock_run_container = (\<lambda>name env opts. Inr ()),
      dock_remove_container = (\<lambda>name. Inr ()),
      dock_stop_container = (\<lambda>name. Inr ()),
      dock_start_container = (\<lambda>name. Inr ()),
      dock_restart_container = (\<lambda>name. Inr ()),
      rpc_request = (\<lambda>name payload. Inr [])\<rparr>"

definition svc_loaded :: service where
  "svc_loaded = (new_service ''svc'')
     \<lparr>smeta := Some meta_svc, senv := [''A'' \<mapsto> ''meta'', ''B'' \<mapsto> ''cfg''],
      spos := (Some 0, Some 0)\<rparr>"

definition table_svc :: state_manager where
  "table_svc = init_manager\<lparr>state := [(''svc'', svc_loaded)]\<rparr>"

definition params_env :: params where
  "params_env = no_params\<lparr>p_env := Some [''C'' \<mapsto> ''call'']\<rparr>"

definition returned_env :: "state_manager \<times> (py_exception + service) \<Rightarrow> env option" where
  "returned_env r = (case snd r of Inl e \<Rightarrow> None | Inr svc \<Rightarrow> Some (senv svc))"


text \<open>A missing env layer contributes nothing to a merge.\<close>

definition layer :: "env option \<Rightarrow> env" where
  "layer e = (case e of None \<Rightarrow> Map.empty | Some x \<Rightarrow> x)"

text \<open>
  The contract of the port allocator in the words of the specification, for comparison
  with \<open>available_ports\<close>: the range without the ports of the running containers and
  without the reservations.
\<close>

definition spec_available_ports :: "docker_manager \<Rightarrow> container list \<Rightarrow> int set" where
  "spec_available_ports dm engine =
     {start_port dm..<end_port dm}
       - set (concat (map cports (filter (\<lambda>c. cstatus c = ''running'') engine)))
       - reserved_ports dm"

subsection \<open>Concrete pools and engines\<close>

definition pool1 :: docker_manager where
  "pool1 = \<lparr>start_port = 8900, end_port = 8901, reserved_ports = {}\<rparr>"

definition pool3 :: docker_manager where
  "pool3 = \<lparr>start_port = 8900, end_port = 8903, reserved_ports = {8902}\<rparr>"

definition engine_mixed :: "container list" where
  "engine_mixed =
     [\<lparr>cname = ''paused_svc'', cstatus = ''paused'', clabels = [''inband''], cports = [8900]\<rparr>,
      \<lparr>cname = ''foreign'', cstatus = ''running'', clabels = [], cports = [8901]\<rparr>]"

text \<open>An image with one declared port whose engine call fails, and one that starts.\<close>

definition world_engine_fails :: "unit run_world" where
  "world_engine_fails =
     \<lparr>image_ports = Inr [80], build_image = Inr (), engine_listing = Inr [],
      engine_run = (\<lambda>ps. Inl DockerError)\<rparr>"

definition world_engine_starts :: "int list run_world" where
  "world_engine_starts =
     \<lparr>image_ports = Inr [80], build_image = Inr (), engine_listing = Inr [],
      engine_run = (\<lambda>ps. Inr ps)\<rparr>"

text \<open>An image with two declared ports.\<close>

definition world_two_ports :: "int list run_world" where
  "world_two_ports =
     \<lparr>image_ports = Inr [80, 443], build_image = Inr (), engine_listing = Inr [],
      engine_run = (\<lambda>ps. Inr ps)\<rparr>"

section \<open>Properties of the port pool\<close>

lemma reserved_hold_ports: "reserved_ports (hold_ports dm ps) = reserved_ports dm \<union> set ps"
  unfolding hold_ports_def by (induction ps arbitrary: dm) auto

lemma reserved_free_ports: "reserved_ports (free_ports dm ps) = reserved_ports dm \<union> set ps"
  unfolding free_ports_def by (induction ps arbitrary: dm) auto

lemma set_py_range: "set (py_range a b) = {a..<b}"
  unfolding py_range_def by (simp add: atLeastLessThanPlusOne_atLeastAtMost_int [symmetric])

lemma finite_available_ports: "finite (available_ports dm engine)"
  by (simp add: available_ports_def)

text \<open>
  C1. The claim: \<open>free_ports\<close> removes the given ports from \<open>reserved_ports\<close>, so the
  reservation set does not grow over a sequence of run attempts. The code adds them
  instead. With a pool of the single port 8900, an attempt whose engine call fails leaves
  8900 reserved, an attempt that starts the container leaves it reserved as well, and the
  next attempt finds no port: the set only grows.
\<close>

theorem run_container_keeps_reservation:
  "free_ports (hold_ports pool1 [8900]) [8900] = pool1\<lparr>reserved_ports := {8900}\<rparr> \<and>
   run_container Min pool1 world_engine_fails = (pool1\<lparr>reserved_ports := {8900}\<rparr>, Inl DockerError) \<and>
   run_container Min pool1 world_engine_starts = (pool1\<lparr>reserved_ports := {8900}\<rparr>, Inr [8900]) \<and>
   run_container Min (pool1\<lparr>reserved_ports := {8900}\<rparr>) world_engine_starts
     = (pool1\<lparr>reserved_ports := {8900}\<rparr>, Inl KeyError)"
  by code_simp

lemma pop_each_exhausted:
  assumes "\<forall>S. finite S \<and> S \<noteq> {} \<longrightarrow> pick S \<in> S"
  shows "finite S \<Longrightarrow> card S < length ps \<Longrightarrow> pop_each pick S ps = Inl KeyError"
proof (induction ps arbitrary: S)
  case Nil
  then show ?case by simp
next
  case (Cons p ps)
  show ?case
  proof (cases "S = {}")
    case True
    then show ?thesis by (simp add: set_pop_def)
  next
    case False
    with assms Cons.prems have "pick S \<in> S" by blast
    with Cons.prems have "0 < card S" by (auto simp: card_gt_0_iff)
    with Cons.prems \<open>pick S \<in> S\<close> have "card (S - {pick S}) < length ps" by simp
    with Cons.IH [of "S - {pick S}"] Cons.prems have "pop_each pick (S - {pick S}) ps = Inl KeyError"
      by simp
    with False show ?thesis by (simp add: set_pop_def)
  qed
qed

lemma pop_each_enough:
  assumes "\<forall>S. finite S \<and> S \<noteq> {} \<longrightarrow> pick S \<in> S"
  shows "finite S \<Longrightarrow> length ps \<le> card S \<Longrightarrow>
    \<exists>xs. pop_each pick S ps = Inr xs \<and> distinct xs \<and> set xs \<subseteq> S \<and> length xs = length ps"
proof (induction ps arbitrary: S)
  case Nil
  then show ?case by simp
next
  case (Cons p ps)
  from Cons.prems have ne: "S \<noteq> {}" by auto
  with assms Cons.prems have pin: "pick S \<in> S" by blast
  with Cons.prems have "length ps \<le> card (S - {pick S})" by simp
  with Cons.IH [of "S - {pick S}"] Cons.prems obtain xs where
    xs: "pop_each pick (S - {pick S}) ps = Inr xs" "distinct xs" "set xs \<subseteq> S - {pick S}"
      "length xs = length ps"
    by auto
  with ne pin show ?case by (auto simp: set_pop_def)
qed

text \<open>
  C2. The claim: with fewer than k available ports \<open>run_container\<close> fails with the error
  kind ResourceExhausted. The code has no such exception: the failure is the \<open>KeyError\<close>
  of \<open>set.pop()\<close> on the emptied set. Here the pool holds one port and the image
  declares two.
\<close>

theorem run_container_exhausted_counterexample:
  "run_container Min pool1 world_two_ports = (pool1, Inl KeyError) \<and>
   snd (run_container Min pool1 world_two_ports) \<noteq> Inl (OtherException ''ResourceExhausted'')"
  by code_simp

text \<open>
  C2, amended. Once the image is found and built and the engine has listed its
  containers: with fewer available ports than the image declares, \<open>run_container\<close> raises
  \<open>KeyError\<close> and reserves nothing; otherwise it hands the engine as many pairwise
  distinct ports of the available set as the image declares. \<open>pick\<close> is any choice that
  \<open>set.pop()\<close> may make.
\<close>

theorem run_container_allocation:
  assumes "\<forall>S. finite S \<and> S \<noteq> {} \<longrightarrow> pick S \<in> S"
    and "image_ports w = Inr ports"
    and "build_image w = Inr ()"
    and "engine_listing w = Inr engine"
  shows "if card (available_ports dm engine) < length ports
         then run_container pick dm w = (dm, Inl KeyError)
         else (\<exists>ps. distinct ps \<and> set ps \<subseteq> available_ports dm engine \<and>
                 length ps = length ports \<and>
                 run_container pick dm w = (free_ports (hold_ports dm ps) ps, engine_run w ps))"
proof (cases "card (available_ports dm engine) < length ports")
  case True
  with pop_each_exhausted [OF assms(1) finite_available_ports]
  have "pop_each pick (available_ports dm engine) ports = Inl KeyError" by blast
  with True assms(2-4) show ?thesis by (simp add: run_container_def)
next
  case False
  then have "length ports \<le> card (available_ports dm engine)" by simp
  from pop_each_enough [OF assms(1) finite_available_ports this]
  obtain ps where "pop_each pick (available_ports dm engine) ports = Inr ps" "distinct ps"
    "set ps \<subseteq> available_ports dm engine" "length ps = length ports"
    by blast
  with False assms(2-4) show ?thesis by (auto simp: run_container_def)
qed

theorem run_container_allocation_witness:
  "image_ports world_two_ports = Inr [80, 443] \<and> build_image world_two_ports = Inr () \<and>
   engine_listing world_two_ports = Inr [] \<and>
   card (available_ports pool1 []) < length [80, 443 :: int] \<and>
   run_container Min pool1 world_two_ports = (pool1, Inl KeyError)"
proof -
  have pick: "\<forall>S :: int set. finite S \<and> S \<noteq> {} \<longrightarrow> Min S \<in> S" by simp
  have w: "image_ports world_two_ports = Inr [80, 443]" "build_image world_two_ports = Inr ()"
    "engine_listing world_two_ports = Inr []"
    by (simp_all add: world_two_ports_def)
  have "available_ports pool1 [] = {8900}" by code_simp
  then have c: "card (available_ports pool1 []) < length [80, 443 :: int]" by simp
  from run_container_allocation [OF pick w, of pool1] c w show ?thesis by simp
qed

lemma update_fresh: "k \<notin> fst ` set al \<Longrightarrow> AList.update k v al = al @ [(k, v)]"
  by (induction al) auto

lemma fold_update_distinct:
  "distinct (map cname xs) \<Longrightarrow> cname ` set xs \<inter> fst ` set acc = {} \<Longrightarrow>
   fold (\<lambda>c d. AList.update (cname c) c d) xs acc = acc @ map (\<lambda>c. (cname c, c)) xs"
proof (induction xs arbitrary: acc)
  case Nil
  then show ?case by simp
next
  case (Cons x xs)
  from Cons.prems have fresh: "cname x \<notin> fst ` set acc" by auto
  from Cons.prems have "cname ` set xs \<inter> fst ` set (acc @ [(cname x, x)]) = {}"
    by auto
  with Cons.IH [of "acc @ [(cname x, x)]"] Cons.prems fresh show ?case
    by (simp add: update_fresh)
qed

lemma distinct_filter_names: "distinct (map cname xs) \<Longrightarrow> distinct (map cname (filter P xs))"
  by (induction xs) auto

lemma used_ports_distinct:
  assumes "distinct (map cname engine)"
  shows "used_ports engine = set (concat (map cports (filter (\<lambda>c. ''inband'' \<in> set (clabels c)) engine)))"
proof -
  let ?lst = "containers_list engine None True"
  have lst: "?lst = filter (\<lambda>c. ''inband'' \<in> set (clabels c)) engine"
    by (simp add: containers_list_def)
  have "distinct (map cname ?lst)"
    unfolding containers_list_def by (rule distinct_filter_names [OF assms])
  then have "containers_dict engine None True = map (\<lambda>c. (cname c, c)) ?lst"
    unfolding containers_dict_def using fold_update_distinct [of ?lst "[]"] by simp
  then have "used_ports engine = set (concat (map cports ?lst))"
    by (simp add: used_ports_def comp_def)
  with lst show ?thesis by simp
qed

text \<open>
  C3. The claim: \<open>available_ports\<close> is the range without the host ports of the running
  containers and without the reservations, and the ports of containers that are not
  running stay available. The listing has no status filter and keeps the \<open>inband\<close>
  label filter: port 8900 of a paused labelled container is withheld, port 8901 of a
  running container without the label is offered.
\<close>

theorem available_ports_counterexample:
  "8900 \<in> spec_available_ports pool3 engine_mixed \<and> 8900 \<notin> available_ports pool3 engine_mixed \<and>
   8901 \<notin> spec_available_ports pool3 engine_mixed \<and> 8901 \<in> available_ports pool3 engine_mixed"
  by code_simp

text \<open>
  C3, amended. With container names unique, as the engine keeps them,
  \<open>available_ports\<close> is the range \<open>[start_port, end_port)\<close> without the host ports of
  every container that carries the \<open>inband\<close> label, whatever its status, and without the
  reserved ports.
\<close>

theorem available_ports_inband:
  assumes "distinct (map cname engine)"
  shows "available_ports dm engine =
     {start_port dm..<end_port dm}
       - set (concat (map cports (filter (\<lambda>c. ''inband'' \<in> set (clabels c)) engine)))
       - reserved_ports dm"
  by (simp add: available_ports_def set_py_range used_ports_distinct [OF assms])

theorem available_ports_inband_witness:
  "distinct (map cname engine_mixed) \<and> available_ports pool3 engine_mixed = {8901}"
proof -
  have d: "distinct (map cname engine_mixed)" by (simp add: engine_mixed_def)
  have "{start_port pool3..<end_port pool3} = {8900, 8901, 8902}"
    by (auto simp: pool3_def)
  moreover have "set (concat (map cports (filter (\<lambda>c. ''inband'' \<in> set (clabels c)) engine_mixed))) = {8900}"
    by (simp add: engine_mixed_def)
  moreover have "reserved_ports pool3 = {8902}" by (simp add: pool3_def)
  ultimately have "available_ports pool3 engine_mixed = {8900, 8901, 8902} - {8900} - {8902}"
    using available_ports_inband [OF d, of pool3] by simp
  with d show ?thesis by (simp add: insert_Diff_if)
qed

section \<open>Properties of the dashboard placer\<close>

lemma digit_val_char: "d < 10 \<Longrightarrow> digit_val (digit_char d) = d"
  by (simp add: digit_val_def digit_char_def)

lemma nat_of_dec_dec_nat: "nat_of_dec (dec_nat n) = n"
proof (induction n rule: dec_nat.induct)
  case (1 n)
  show ?case
  proof (cases "n < 10")
    case True
    then show ?thesis by (simp add: dec_nat.simps [of n] nat_of_dec_def digit_val_char)
  next
    case False
    with 1 have "nat_of_dec (dec_nat (n div 10)) = n div 10" by simp
    with False show ?thesis
      by (simp add: dec_nat.simps [of n] nat_of_dec_def digit_val_char)
  qed
qed

lemma dec_nat_inj: "dec_nat n = dec_nat m \<Longrightarrow> n = m"
  by (metis nat_of_dec_dec_nat)

lemma of_char_digit: "d < 10 \<Longrightarrow> of_char (digit_char d) = 48 + d"
  by (simp add: digit_char_def)

lemma digit_char_plain: "d < 10 \<Longrightarrow> digit_char d \<noteq> CHR ''x'' \<and> digit_char d \<noteq> CHR ''-''"
proof
  assume d: "d < 10"
  show "digit_char d \<noteq> CHR ''x''"
  proof
    assume "digit_char d = CHR ''x''"
    then have "(of_char (digit_char d) :: nat) = of_char CHR ''x''" by simp
    with d show False by (simp add: of_char_digit)
  qed
  show "digit_char d \<noteq> CHR ''-''"
  proof
    assume "digit_char d = CHR ''-''"
    then have "(of_char (digit_char d) :: nat) = of_char CHR ''-''" by simp
    with d show False by (simp add: of_char_digit)
  qed
qed

lemma dec_nat_chars: "c \<in> set (dec_nat n) \<Longrightarrow> c \<noteq> CHR ''x'' \<and> c \<noteq> CHR ''-''"
proof (induction n rule: dec_nat.induct)
  case (1 n)
  show ?case
  proof (cases "n < 10")
    case True
    with 1(2) digit_char_plain [of n] show ?thesis by (simp add: dec_nat.simps [of n])
  next
    case False
    with 1 digit_char_plain [of "n mod 10"] show ?thesis
      by (auto simp: dec_nat.simps [of n])
  qed
qed

lemma dec_nat_nonempty: "dec_nat n \<noteq> []"
  by (simp add: dec_nat.simps [of n])

lemma str_int_inj: "str_int i = str_int j \<Longrightarrow> i = j"
proof -
  assume eq: "str_int i = str_int j"
  have hd_plain: "\<And>n. hd (dec_nat n) \<noteq> CHR ''-''"
    using dec_nat_chars dec_nat_nonempty by (metis hd_in_set)
  have neq: "\<And>n k. CHR ''-'' # dec_nat n \<noteq> dec_nat k"
    using hd_plain by (metis list.sel(1))
  show "i = j"
  proof (cases "i < 0")
    case True
    show ?thesis
    proof (cases "j < 0")
      case True
      with \<open>i < 0\<close> eq have "dec_nat (nat (- i)) = dec_nat (nat (- j))" by (simp add: str_int_def)
      then have "nat (- i) = nat (- j)" by (rule dec_nat_inj)
      with True \<open>i < 0\<close> show ?thesis by simp
    next
      case False
      with \<open>i < 0\<close> eq neq show ?thesis by (simp add: str_int_def)
    qed
  next
    case False
    show ?thesis
    proof (cases "j < 0")
      case True
      with False eq neq [of "nat (- j)" "nat i"] show ?thesis by (simp add: str_int_def)
    next
      case jn: False
      with False eq have "dec_nat (nat i) = dec_nat (nat j)" by (simp add: str_int_def)
      then have "nat i = nat j" by (rule dec_nat_inj)
      with False jn show ?thesis by simp
    qed
  qed
qed

lemma str_int_no_x: "CHR ''x'' \<notin> set (str_int i)"
  using dec_nat_chars by (auto simp: str_int_def)

lemma split_at_x:
  "CHR ''x'' \<notin> set a \<Longrightarrow> CHR ''x'' \<notin> set b \<Longrightarrow> a @ CHR ''x'' # s = b @ CHR ''x'' # t \<Longrightarrow> a = b \<and> s = t"
proof (induction a arbitrary: b)
  case Nil
  then show ?case by (cases b) auto
next
  case (Cons c a)
  then show ?case by (cases b) auto
qed

lemma cell_key_inj: "cell_key c r = cell_key c' r' \<longleftrightarrow> c = c' \<and> r = r'"
proof
  assume "cell_key c r = cell_key c' r'"
  then have "str_int c @ CHR ''x'' # str_int r = str_int c' @ CHR ''x'' # str_int r'"
    by (simp add: cell_key_def)
  from split_at_x [OF str_int_no_x str_int_no_x this] show "c = c' \<and> r = r'"
    by (auto dest: str_int_inj)
qed simp

lemma to_s_Some: "to_s (Some c, Some r) = cell_key c r"
  by (simp add: to_s_def str_opt_def cell_key_def)

lemma occupied_iff:
  "cell_key c r \<in> set (occupied m (Some name)) \<longleftrightarrow>
   (\<exists>srv \<in> set (map snd (state m)). sname srv \<noteq> name \<and> spos srv = (Some c, Some r))"
proof
  assume "cell_key c r \<in> set (occupied m (Some name))"
  then obtain srv where srv: "srv \<in> set (map snd (state m))" "sname srv \<noteq> name"
    "nn (fst (spos srv))" "nn (snd (spos srv))" "cell_key c r = to_s (spos srv)"
    by (auto simp: occupied_def split: if_splits)
  then obtain c' r' where p: "spos srv = (Some c', Some r')"
    by (cases "spos srv") (auto simp: nn_def)
  with srv(5) have "c = c' \<and> r = r'" by (simp add: to_s_Some cell_key_inj)
  with p srv show "\<exists>srv \<in> set (map snd (state m)). sname srv \<noteq> name \<and> spos srv = (Some c, Some r)"
    by blast
next
  assume "\<exists>srv \<in> set (map snd (state m)). sname srv \<noteq> name \<and> spos srv = (Some c, Some r)"
  then obtain srv where "srv \<in> set (map snd (state m))" "sname srv \<noteq> name" "spos srv = (Some c, Some r)"
    by blast
  then show "cell_key c r \<in> set (occupied m (Some name))"
    by (force simp: occupied_def nn_def to_s_Some)
qed

lemma set_space_walk:
  "set (space_walk m col row) =
     {col..<cols m} \<times> {row..<rows m} \<union> {0..<col} \<times> {0..<row}"
  by (auto simp: space_walk_def set_py_range)


lemma sorted_cells_row: "sorted_wrt row_major (map (\<lambda>c. (c, r)) (py_range a b))"
  unfolding py_range_def
  by (simp add: sorted_wrt_map row_major_def sorted_wrt_iff_nth_less)

lemma sorted_cells_rows:
  "sorted_wrt (<) rs \<Longrightarrow>
   sorted_wrt row_major (concat (map (\<lambda>r. map (\<lambda>c. (c, r)) (py_range a b)) rs))"
proof (induction rs)
  case Nil
  then show ?case by simp
next
  case (Cons r rs)
  then have "sorted_wrt row_major (concat (map (\<lambda>r. map (\<lambda>c. (c, r)) (py_range a b)) rs))"
    and "\<forall>r' \<in> set rs. r < r'"
    by simp_all
  then show ?case
    by (auto simp: sorted_wrt_append sorted_cells_row) (simp add: row_major_def)
qed

lemma sorted_py_range: "sorted_wrt (<) (py_range a b)"
  unfolding py_range_def by (simp add: sorted_wrt_iff_nth_less)

lemma set_cells:
  "set (concat (map (\<lambda>r. map (\<lambda>c. (c, r)) (py_range a b)) (py_range a' b'))) = {a..<b} \<times> {a'..<b'}"
  by (auto simp: set_py_range)

lemma find_free_None:
  "find (\<lambda>(c, r). \<not> P c r) xs = None \<longleftrightarrow> (\<forall>(c, r) \<in> set xs. P c r)"
  by (induction xs) auto

lemma allocate_walk:
  "\<exists>part1 part2.
     space_walk m col row = part1 @ part2 \<and>
     set part1 = {col..<cols m} \<times> {row..<rows m} \<and> sorted_wrt row_major part1 \<and>
     set part2 = {0..<col} \<times> {0..<row} \<and> sorted_wrt row_major part2 \<and>
     allocate m name col row =
       find (\<lambda>(c, r). \<not> (\<exists>srv \<in> set (map snd (state m)). sname srv \<noteq> name \<and> spos srv = (Some c, Some r)))
         (part1 @ part2) \<and>
     (allocate m name col row = None \<longleftrightarrow>
        (\<forall>(c, r) \<in> set (part1 @ part2).
           \<exists>srv \<in> set (map snd (state m)). sname srv \<noteq> name \<and> spos srv = (Some c, Some r)))"
proof -
  let ?part1 = "concat (map (\<lambda>rowi. map (\<lambda>coli. (coli, rowi)) (py_range col (cols m))) (py_range row (rows m)))"
  let ?part2 = "concat (map (\<lambda>rowi. map (\<lambda>coli. (coli, rowi)) (py_range 0 col)) (py_range 0 row))"
  let ?free = "\<lambda>(c, r). \<not> (\<exists>srv \<in> set (map snd (state m)). sname srv \<noteq> name \<and> spos srv = (Some c, Some r))"
  have walk: "space_walk m col row = ?part1 @ ?part2" by (simp add: space_walk_def)
  have keys: "(\<lambda>(icol, irow). cell_key icol irow \<notin> set (occupied m (Some name))) = ?free"
    by (rule ext) (simp add: occupied_iff split: prod.splits)
  have alloc: "allocate m name col row = find ?free (?part1 @ ?part2)"
    unfolding allocate_def walk keys ..
  have none: "allocate m name col row = None \<longleftrightarrow>
        (\<forall>(c, r) \<in> set (?part1 @ ?part2).
           \<exists>srv \<in> set (map snd (state m)). sname srv \<noteq> name \<and> spos srv = (Some c, Some r))"
    unfolding alloc by (rule find_free_None)
  have sf: "set ?part1 = {col..<cols m} \<times> {row..<rows m}" by (rule set_cells)
  have sb: "set ?part2 = {0..<col} \<times> {0..<row}" by (rule set_cells)
  have of: "sorted_wrt row_major ?part1" by (rule sorted_cells_rows [OF sorted_py_range])
  have ob: "sorted_wrt row_major ?part2" by (rule sorted_cells_rows [OF sorted_py_range])
  show ?thesis
    apply (rule exI [of _ ?part1])
    apply (rule exI [of _ ?part2])
    using walk sf of sb ob alloc none apply (intro conjI)
          apply assumption+
    done
qed


lemma occupied_update_same:
  "map_of al name = Some svc \<Longrightarrow> sname svc = name \<Longrightarrow> sname svc' = name \<Longrightarrow>
   concat (map (\<lambda>srv. if Some (sname srv) \<noteq> Some name \<and> nn (fst (spos srv)) \<and> nn (snd (spos srv))
                         then [to_s (spos srv)] else []) (map snd (AList.update name svc' al)))
   = concat (map (\<lambda>srv. if Some (sname srv) \<noteq> Some name \<and> nn (fst (spos srv)) \<and> nn (snd (spos srv))
                         then [to_s (spos srv)] else []) (map snd al))"
  by (induction al) (auto split: if_splits)

lemma allocate_store_same:
  assumes "map_of (state m) name = Some svc" "sname svc = name" "sname svc' = name"
  shows "allocate (store name svc' m) name col row = allocate m name col row"
proof -
  have "occupied (store name svc' m) (Some name) = occupied m (Some name)"
    unfolding occupied_def store_def using occupied_update_same [OF assms] by simp
  then show ?thesis by (simp add: allocate_def space_walk_def store_def)
qed

lemma map_of_store: "map_of (state (store name svc m)) name = Some svc"
  by (simp add: store_def update_conv')

lemma get_no_cell:
  assumes "map_of (state m) name = Some svc" "sname svc = name"
    and "params_pos ps = Some (col, row)" "allocate m name col row = None"
  shows "\<exists>m'. get k w m name ps = (m', Inl TypeError) \<and>
              map_option spos (map_of (state m') name) = Some (spos svc)"
proof -
  define svc1 where "svc1 = (if env_layer (p_env ps) \<noteq> [] then set_env (merge_dicts (env_layer (p_env ps))) svc else svc)"
  define svc2 where "svc2 = (case env_layer (p_build_options ps) of [] \<Rightarrow> svc1 | b # _ \<Rightarrow> set_build_opts b svc1)"
  have n1: "sname svc1 = name" "spos svc1 = spos svc"
    using assms(2) by (simp_all add: svc1_def set_env_def)
  have n2: "sname svc2 = name" "spos svc2 = spos svc"
    using n1 by (simp_all add: svc2_def set_build_opts_def split: list.splits)
  have al: "allocate (store name svc2 m) name col row = None"
    using allocate_store_same [OF assms(1,2) n2(1)] assms(4) by simp
  have "get_record m name ps [] (Some (col, row)) =
      (case allocate (store name svc2 m) name col row of
         None \<Rightarrow> (store name svc2 m, Inl TypeError)
       | Some (icol, irow) \<Rightarrow>
           (store name (set_pos icol irow svc2) (store name svc2 m), Inr (set_pos icol irow svc2)))"
    unfolding get_record_def svc2_def svc1_def by (simp add: assms(1) Let_def split: option.splits)
  with al have "get_record m name ps [] (Some (col, row)) = (store name svc2 m, Inl TypeError)"
    by simp
  with assms(1,3) have "get k w m name ps = (store name svc2 m, Inl TypeError)"
    by (simp add: get_def)
  with n2 show ?thesis by (simp add: map_of_store)
qed

text \<open>
  C5. For every requested cell, the candidates of \<open>_allocate\<close> are first the cells of
  the columns \<open>col..cols\<close> and rows \<open>row..rows\<close> in row-major order, then those of the
  columns \<open>0..col\<close> and rows \<open>0..row\<close>; the result is the first candidate at which no
  record other than the one being placed sits, and \<open>None\<close> exactly when there is no
  such candidate. In that case \<open>get\<close> ends with the \<open>TypeError\<close> of
  \<open>svc.set_pos(**None)\<close> and the position of the record is what it was.
\<close>

theorem allocate_first_free:
  "(\<exists>part1 part2.
     space_walk m col row = part1 @ part2 \<and>
     set part1 = {col..<cols m} \<times> {row..<rows m} \<and> sorted_wrt row_major part1 \<and>
     set part2 = {0..<col} \<times> {0..<row} \<and> sorted_wrt row_major part2 \<and>
     allocate m name col row =
       find (\<lambda>(c, r). \<not> (\<exists>srv \<in> set (map snd (state m)). sname srv \<noteq> name \<and> spos srv = (Some c, Some r)))
         (part1 @ part2) \<and>
     (allocate m name col row = None \<longleftrightarrow>
        (\<forall>(c, r) \<in> set (part1 @ part2).
           \<exists>srv \<in> set (map snd (state m)). sname srv \<noteq> name \<and> spos srv = (Some c, Some r)))) \<and>
   (map_of (state m) name = Some svc \<and> sname svc = name \<and> params_pos ps = Some (col, row) \<and>
    allocate m name col row = None \<longrightarrow>
      (\<exists>m'. get k w m name ps = (m', Inl TypeError) \<and>
            map_option spos (map_of (state m') name) = Some (spos svc)))"
  using allocate_walk [of m col row name] get_no_cell [of m name svc ps col row k w] by blast

theorem allocate_first_free_witness:
  "allocate grid_one ''B'' 2 3 = Some (3, 3) \<and>
   allocate grid_one ''B'' 2 3 =
     find (\<lambda>(c, r). \<not> (\<exists>srv \<in> set (map snd (state grid_one)). sname srv \<noteq> ''B'' \<and> spos srv = (Some c, Some r)))
       (space_walk grid_one 2 3)"
proof -
  have "allocate grid_one ''B'' 2 3 = Some (3, 3)" by code_simp
  moreover from allocate_first_free [of grid_one 2 3 "''B''", THEN conjunct1] obtain part1 part2 where
    "space_walk grid_one 2 3 = part1 @ part2"
    "allocate grid_one ''B'' 2 3 =
       find (\<lambda>(c, r). \<not> (\<exists>srv \<in> set (map snd (state grid_one)). sname srv \<noteq> ''B'' \<and> spos srv = (Some c, Some r)))
         (part1 @ part2)"
    by (elim exE conjE) (rule that)
  then have "allocate grid_one ''B'' 2 3 =
     find (\<lambda>(c, r). \<not> (\<exists>srv \<in> set (map snd (state grid_one)). sname srv \<noteq> ''B'' \<and> spos srv = (Some c, Some r)))
       (space_walk grid_one 2 3)"
    by simp
  ultimately show ?thesis by simp
qed

lemma find_in_set: "find P xs = Some x \<Longrightarrow> x \<in> set xs"
  by (auto simp: find_Some_iff)

lemma walk_skips:
  assumes "0 < col" "0 < row" "c < col \<and> row \<le> r \<or> col \<le> c \<and> r < row"
  shows "(c, r) \<notin> set (space_walk m col row) \<and> allocate m name col row \<noteq> Some (c, r)"
proof -
  from assms have notin: "(c, r) \<notin> set (space_walk m col row)"
    by (auto simp: set_space_walk)
  then have "allocate m name col row \<noteq> Some (c, r)"
    unfolding allocate_def using find_in_set by metis
  with notin show ?thesis by simp
qed

text \<open>
  C10. There are tables with a free cell for which \<open>_allocate\<close> returns \<open>None\<close>: on the
  6 by 6 grid with ten records placed, cell \<open>(0, 5)\<close> is free and a request for
  \<open>(1, 5)\<close> finds nothing. For a positive column and row the walk never visits a cell
  left of the column at or below the row, nor a cell at or right of the column above the
  row, so such a cell is never returned.
\<close>

theorem space_walk_skips_cells:
  "cols grid_blocked = 6 \<and> rows grid_blocked = 6 \<and>
   cell_key 0 5 \<notin> set (occupied grid_blocked None) \<and>
   allocate grid_blocked ''k'' 1 5 = None \<and>
   (\<forall>m name col row c r.
      0 < col \<and> 0 < row \<and> (c < col \<and> row \<le> r \<or> col \<le> c \<and> r < row) \<longrightarrow>
      (c, r) \<notin> set (space_walk m col row) \<and> allocate m name col row \<noteq> Some (c, r))"
proof -
  have "cols grid_blocked = 6 \<and> rows grid_blocked = 6" by code_simp
  moreover have "cell_key 0 5 \<notin> set (occupied grid_blocked None)" by code_simp
  moreover have "allocate grid_blocked ''k'' 1 5 = None" by code_simp
  ultimately show ?thesis using walk_skips by blast
qed

theorem space_walk_skips_cells_witness:
  "(0, 5) \<notin> set (space_walk grid_blocked 1 5) \<and> allocate grid_blocked ''k'' 1 5 \<noteq> Some (0, 5) \<and>
   (5, 0) \<notin> set (space_walk grid_blocked 1 5) \<and> allocate grid_blocked ''k'' 1 5 \<noteq> Some (5, 0)"
proof -
  from space_walk_skips_cells have
    r: "\<And>m name col row c r. 0 < col \<and> 0 < row \<and> (c < col \<and> row \<le> r \<or> col \<le> c \<and> r < row) \<Longrightarrow>
      (c, r) \<notin> set (space_walk m col row) \<and> allocate m name col row \<noteq> Some (c, r)"
    by blast
  from r [of 1 5 0 5 grid_blocked "''k''"] r [of 1 5 5 0 grid_blocked "''k''"] show ?thesis
    by simp
qed


section \<open>Properties of the service table\<close>

lemma merge_three: "merge_dicts (env_layer a @ env_layer b @ [E]) = layer a ++ layer b ++ E"
  by (simp add: merge_dicts_def env_layer_def layer_def split: option.splits)

lemma get_record_env:
  assumes "get_record m name ps envs wanted = (m', Inr svc)" "map_of (state m) name = Some svc0"
  shows "senv svc = (if envs @ env_layer (p_env ps) \<noteq> [] then merge_dicts (envs @ env_layer (p_env ps)) else senv svc0)"
  using assms
  by (auto simp: get_record_def Let_def set_env_def set_build_opts_def set_pos_def
      split: option.splits list.splits prod.splits if_splits)

lemma load_state_env:
  assumes "load_state k w m name wanted = Inr (m1, envs, wanted')"
  shows "\<exists>config. band_load_config w name = Inr config \<and>
           envs = env_layer (case image_meta w name of None \<Rightarrow> None | Some mt \<Rightarrow> m_env mt)
                @ env_layer (case config of None \<Rightarrow> None | Some d \<Rightarrow> c_env d) \<and>
           (\<exists>svc0. map_of (state m1) name = Some svc0 \<and> senv svc0 = Map.empty)"
  using assms
  by (auto simp: load_state_def load_config_def Let_def map_of_store new_service_def set_meta_def env_layer_def
      split: sum.splits option.splits prod.splits if_splits)


lemma py_range_first: "a < b \<Longrightarrow> py_range a b = a # py_range (a + 1) b"
  unfolding py_range_def by (simp add: upto_rec1)

lemma space_walk_origin: "0 < cols m \<Longrightarrow> 0 < rows m \<Longrightarrow> \<exists>rest. space_walk m 0 0 = (0, 0) # rest"
  by (simp add: space_walk_def py_range_first [of 0])

lemma allocate_alone:
  assumes "state m = [(name, s)]" "sname s = name" "0 < cols m" "0 < rows m"
  shows "allocate m name 0 0 = Some (0, 0)"
proof -
  from space_walk_origin [OF assms(3,4)] obtain rest where "space_walk m 0 0 = (0, 0) # rest" ..
  moreover have "occupied m (Some name) = []" using assms(1,2) by (simp add: occupied_def)
  ultimately show ?thesis by (simp add: allocate_def)
qed

lemma first_get: "get k0 world_quiet init_manager ''svc'' no_params = (table_svc, Inr svc_loaded)"
proof -
  define s1 where "s1 = set_env [''A'' \<mapsto> ''meta'', ''B'' \<mapsto> ''cfg''] (set_meta meta_svc (new_service ''svc''))"
  define m1 where "m1 = store ''svc'' s1 (store ''svc'' (set_meta meta_svc (new_service ''svc'')) init_manager)"
  have ls: "load_state k0 world_quiet init_manager ''svc'' None =
      Inr (store ''svc'' (set_meta meta_svc (new_service ''svc'')) init_manager,
           [[''A'' \<mapsto> ''meta''], [''B'' \<mapsto> ''cfg'']], Some (0, 0))"
    by (simp add: load_state_def load_config_def world_quiet_def k0_def config_truthy_def
        config_svc_def meta_svc_def env_layer_def pos_present_def Let_def)
  have al: "allocate m1 ''svc'' 0 0 = Some (0, 0)"
    by (rule allocate_alone [where s = s1])
       (simp_all add: m1_def s1_def store_def init_manager_def set_env_def set_meta_def new_service_def)
  have md: "merge_dicts [[''A'' \<mapsto> ''meta''], [''B'' \<mapsto> ''cfg'']] = [''A'' \<mapsto> ''meta'', ''B'' \<mapsto> ''cfg'']"
    by (simp add: merge_dicts_def)
  have gr: "get_record (store ''svc'' (set_meta meta_svc (new_service ''svc'')) init_manager) ''svc'' no_params
            [[''A'' \<mapsto> ''meta''], [''B'' \<mapsto> ''cfg'']] (Some (0, 0))
        = (store ''svc'' (set_pos 0 0 s1) m1, Inr (set_pos 0 0 s1))"
    using al unfolding m1_def s1_def
    by (simp add: get_record_def map_of_store no_params_def env_layer_def md Let_def)
  have "store ''svc'' (set_pos 0 0 s1) m1 = table_svc" "set_pos 0 0 s1 = svc_loaded"
    by (simp_all add: m1_def s1_def store_def table_svc_def svc_loaded_def set_pos_def set_env_def
        set_meta_def new_service_def init_manager_def)
  with gr ls show ?thesis
    by (simp add: get_def init_manager_def params_pos_def no_params_def)
qed

lemma second_get:
  "get k0 world_quiet table_svc ''svc'' params_env
     = (store ''svc'' (set_env [''C'' \<mapsto> ''call''] svc_loaded) table_svc,
        Inr (set_env [''C'' \<mapsto> ''call''] svc_loaded))"
  by (simp add: get_def get_record_def table_svc_def init_manager_def params_env_def no_params_def
      params_pos_def env_layer_def merge_dicts_def Let_def)


lemma get_new_with_env:
  "get k0 world_quiet init_manager ''svc'' params_env
     = (store ''svc'' (svc_loaded\<lparr>senv := [''A'' \<mapsto> ''meta'', ''B'' \<mapsto> ''cfg'', ''C'' \<mapsto> ''call'']\<rparr>) init_manager,
        Inr (svc_loaded\<lparr>senv := [''A'' \<mapsto> ''meta'', ''B'' \<mapsto> ''cfg'', ''C'' \<mapsto> ''call'']\<rparr>))"
proof -
  define s1 where "s1 = set_env [''A'' \<mapsto> ''meta'', ''B'' \<mapsto> ''cfg'', ''C'' \<mapsto> ''call''] (set_meta meta_svc (new_service ''svc''))"
  define m1 where "m1 = store ''svc'' s1 (store ''svc'' (set_meta meta_svc (new_service ''svc'')) init_manager)"
  have ls: "load_state k0 world_quiet init_manager ''svc'' None =
      Inr (store ''svc'' (set_meta meta_svc (new_service ''svc'')) init_manager,
           [[''A'' \<mapsto> ''meta''], [''B'' \<mapsto> ''cfg'']], Some (0, 0))"
    by (simp add: load_state_def load_config_def world_quiet_def k0_def config_truthy_def
        config_svc_def meta_svc_def env_layer_def pos_present_def Let_def)
  have al: "allocate m1 ''svc'' 0 0 = Some (0, 0)"
    by (rule allocate_alone [where s = s1])
       (simp_all add: m1_def s1_def store_def init_manager_def set_env_def set_meta_def new_service_def)
  have md: "merge_dicts [[''A'' \<mapsto> ''meta''], [''B'' \<mapsto> ''cfg''], [''C'' \<mapsto> ''call'']]
      = [''A'' \<mapsto> ''meta'', ''B'' \<mapsto> ''cfg'', ''C'' \<mapsto> ''call'']"
    by (simp add: merge_dicts_def)
  have gr: "get_record (store ''svc'' (set_meta meta_svc (new_service ''svc'')) init_manager) ''svc'' params_env
            [[''A'' \<mapsto> ''meta''], [''B'' \<mapsto> ''cfg'']] (Some (0, 0))
        = (store ''svc'' (set_pos 0 0 s1) m1, Inr (set_pos 0 0 s1))"
    using al unfolding m1_def s1_def
    by (simp add: get_record_def map_of_store params_env_def no_params_def env_layer_def md Let_def)
  have "store ''svc'' (set_pos 0 0 s1) m1 =
          store ''svc'' (svc_loaded\<lparr>senv := [''A'' \<mapsto> ''meta'', ''B'' \<mapsto> ''cfg'', ''C'' \<mapsto> ''call'']\<rparr>) init_manager"
    "set_pos 0 0 s1 = svc_loaded\<lparr>senv := [''A'' \<mapsto> ''meta'', ''B'' \<mapsto> ''cfg'', ''C'' \<mapsto> ''call'']\<rparr>"
    by (simp_all add: m1_def s1_def store_def svc_loaded_def set_pos_def set_env_def
        set_meta_def new_service_def init_manager_def)
  with gr ls show ?thesis
    by (simp add: get_def init_manager_def params_pos_def params_env_def no_params_def)
qed

text \<open>
  C6. The claim: whenever a per-call env is supplied, the env of the returned record is
  the merge of the meta env, the stored config env and the per-call env, also for a name
  that is already in the table. The layers of meta and config are collected only in the
  branch that creates the record. Here the first \<open>get\<close> creates \<open>svc\<close> with the env of
  meta and config; a second \<open>get\<close> with the per-call env \<open>C\<close> returns the record with
  the env \<open>C\<close> alone.
\<close>

theorem get_env_counterexample:
  "get k0 world_quiet init_manager ''svc'' no_params = (table_svc, Inr svc_loaded) \<and>
   senv svc_loaded = [''A'' \<mapsto> ''meta'', ''B'' \<mapsto> ''cfg''] \<and>
   returned_env (get k0 world_quiet table_svc ''svc'' params_env) = Some [''C'' \<mapsto> ''call''] \<and>
   [''C'' \<mapsto> ''call''] \<noteq> merge_dicts [[''A'' \<mapsto> ''meta''], [''B'' \<mapsto> ''cfg''], [''C'' \<mapsto> ''call'']]"
proof -
  have "merge_dicts [[''A'' \<mapsto> ''meta''], [''B'' \<mapsto> ''cfg''], [''C'' \<mapsto> ''call'']] ''A'' = Some ''meta''"
    by (simp add: merge_dicts_def)
  moreover have "[''C'' \<mapsto> ''call''] ''A'' = None" by simp
  ultimately have "[''C'' \<mapsto> ''call''] \<noteq> merge_dicts [[''A'' \<mapsto> ''meta''], [''B'' \<mapsto> ''cfg''], [''C'' \<mapsto> ''call'']]"
    by (metis option.distinct(1))
  then show ?thesis
    by (simp add: first_get second_get returned_env_def svc_loaded_def set_env_def)
qed

text \<open>
  C6, amended. When \<open>get\<close> is given a non-empty per-call env and returns a record: for a
  name that was not in the table the env of the record is the merge of the meta env, the
  stored config env and the per-call env, later layers winning; for a name already in
  the table it is the per-call env alone.
\<close>

theorem get_env_layers:
  assumes "p_env ps = Some E" "E \<noteq> Map.empty" "get k w m name ps = (m', Inr svc)"
  shows "if map_of (state m) name = None
         then (\<exists>config. band_load_config w name = Inr config \<and>
                 senv svc = layer (case image_meta w name of None \<Rightarrow> None | Some mt \<Rightarrow> m_env mt)
                         ++ layer (case config of None \<Rightarrow> None | Some d \<Rightarrow> c_env d) ++ E)
         else senv svc = E"
proof (cases "map_of (state m) name")
  case None
  with assms(3) obtain m1 envs wanted where
    ls: "load_state k w m name (params_pos ps) = Inr (m1, envs, wanted)"
    and gr: "get_record m1 name ps envs wanted = (m', Inr svc)"
    by (auto simp: get_def split: sum.splits prod.splits)
  from load_state_env [OF ls] obtain config svc0 where
    c: "band_load_config w name = Inr config"
    "envs = env_layer (case image_meta w name of None \<Rightarrow> None | Some mt \<Rightarrow> m_env mt)
          @ env_layer (case config of None \<Rightarrow> None | Some d \<Rightarrow> c_env d)"
    "map_of (state m1) name = Some svc0"
    by blast
  from get_record_env [OF gr c(3)] assms(1,2)
  have "senv svc = merge_dicts (envs @ [E])" by (simp add: env_layer_def)
  with c(2) have "senv svc = layer (case image_meta w name of None \<Rightarrow> None | Some mt \<Rightarrow> m_env mt)
                         ++ layer (case config of None \<Rightarrow> None | Some d \<Rightarrow> c_env d) ++ E"
    by (simp add: merge_three)
  with None c(1) show ?thesis by simp
next
  case (Some svc0)
  with assms(3) have "get_record m name ps [] (params_pos ps) = (m', Inr svc)"
    by (simp add: get_def)
  from get_record_env [OF this Some] assms(1,2) have "senv svc = E"
    by (simp add: env_layer_def merge_dicts_def)
  with Some show ?thesis by simp
qed

theorem get_env_layers_witness:
  "returned_env (get k0 world_quiet init_manager ''svc'' params_env)
     = Some [''A'' \<mapsto> ''meta'', ''B'' \<mapsto> ''cfg'', ''C'' \<mapsto> ''call''] \<and>
   returned_env (get k0 world_quiet table_svc ''svc'' params_env) = Some [''C'' \<mapsto> ''call'']"
proof -
  have pe: "p_env params_env = Some [''C'' \<mapsto> ''call'']" "[''C'' \<mapsto> ''call''] \<noteq> Map.empty"
    by (simp_all add: params_env_def no_params_def)
  have old: "map_of (state table_svc) ''svc'' \<noteq> None" "map_of (state init_manager) ''svc'' = None"
    by (simp_all add: table_svc_def init_manager_def)
  from get_env_layers [OF pe second_get] old(1)
  have a: "senv (set_env [''C'' \<mapsto> ''call''] svc_loaded) = [''C'' \<mapsto> ''call'']" by simp
  from get_env_layers [OF pe get_new_with_env] old(2)
  have b: "senv (svc_loaded\<lparr>senv := [''A'' \<mapsto> ''meta'', ''B'' \<mapsto> ''cfg'', ''C'' \<mapsto> ''call'']\<rparr>)
      = [''A'' \<mapsto> ''meta'', ''B'' \<mapsto> ''cfg'', ''C'' \<mapsto> ''call'']"
    by simp
  from a b show ?thesis
    by (simp add: second_get get_new_with_env returned_env_def)
qed


end
